theory Spec2Isabelle
  imports Complex_Main
begin

section \<open>JavaScript values\<close>

text \<open>
  The component of \<^verbatim>\<open>src/app/components/Calculator.tsx\<close> is embedded function by
  function. A JavaScript place that may hold \<^verbatim>\<open>undefined\<close>, \<^verbatim>\<open>null\<close> or a value of
  some type is a \<open>nullable\<close>. A \<open>char\<close> stands for a UTF-16 code unit below 256, so
  that every literal of the source is a \<open>string\<close>.
\<close>

datatype 'a nullable = Undefined | Null | Val 'a

text \<open>A JavaScript number: a finite double (by its exact value), minus zero, the
  two infinities and NaN. \<open>Fin 0\<close> is plus zero.\<close>

datatype jsnum = Fin rat | NegZero | PosInf | NegInf | NaN

text \<open>Truthiness (ToBoolean) at the three types the component tests.\<close>

fun truthy_bool :: "bool nullable \<Rightarrow> bool" where
  "truthy_bool (Val b) = b"
| "truthy_bool Null = False"
| "truthy_bool Undefined = False"

fun truthy_string :: "string nullable \<Rightarrow> bool" where
  "truthy_string (Val s) = (s \<noteq> [])"
| "truthy_string Null = False"
| "truthy_string Undefined = False"

fun truthy_object :: "'a nullable \<Rightarrow> bool" where
  "truthy_object (Val obj) = True"
| "truthy_object Null = False"
| "truthy_object Undefined = False"

text \<open>\<^verbatim>\<open>x || d\<close> at type string.\<close>

definition or_else :: "string nullable \<Rightarrow> string \<Rightarrow> string" where
  "or_else x d = (case x of Val s \<Rightarrow> if truthy_string x then s else d | Null \<Rightarrow> d | Undefined \<Rightarrow> d)"

section \<open>Numbers: doubles, arithmetic and conversion to strings\<close>

text \<open>ToNumber at the values a numeric field can hold.\<close>

fun ToNumber :: "jsnum nullable \<Rightarrow> jsnum" where
  "ToNumber Undefined = NaN"
| "ToNumber Null = Fin 0"
| "ToNumber (Val x) = x"

text \<open>\<open>ndigits b n\<close> is the number of digits of \<open>n\<close> in base \<open>b\<close> (none for zero), and
  \<open>scale_exp b q\<close>, for a positive \<open>q\<close>, is the exponent \<open>e\<close> with
  \<open>b ^ (e - 1) \<le> q < b ^ e\<close>.\<close>

function ndigits :: "int \<Rightarrow> int \<Rightarrow> int" where
  "ndigits b n = (if n \<le> 0 \<or> b < 2 then 0 else 1 + ndigits b (n div b))"
  by pat_completeness auto
termination
  by (relation "measure (\<lambda>(b, n). nat n)") (auto intro: int_div_less_self)

declare ndigits.simps [simp del]

definition power_of :: "int \<Rightarrow> int \<Rightarrow> rat" where
  "power_of b e = (if 0 \<le> e then of_int b ^ nat e else 1 / of_int b ^ nat (- e))"

definition scale_exp :: "int \<Rightarrow> rat \<Rightarrow> int" where
  "scale_exp b q =
     (if 1 \<le> q then ndigits b \<lfloor>q\<rfloor>
      else 1 - ndigits b (\<lceil>1 / q\<rceil> - 1))"

text \<open>Rounding of an exact result to a double (IEEE 754 binary64, round to nearest,
  ties to even): 53 bits of precision, the exponent not below that of the subnormal
  numbers, and infinity from \<open>2 ^ 1024\<close> on.\<close>

definition round_half_even :: "rat \<Rightarrow> int" where
  "round_half_even r =
     (let f = \<lfloor>r\<rfloor>; d = r - of_int f
      in if d < 1 / 2 then f else if 1 / 2 < d then f + 1 else if even f then f else f + 1)"

definition round_magnitude :: "rat \<Rightarrow> rat option" where
  "round_magnitude a =
     (let e = max (scale_exp 2 a - 1) (- 1022);
          u = power_of 2 (e - 52);
          v = of_int (round_half_even (a / u)) * u
      in if power_of 2 1024 \<le> v then None else Some v)"

definition to_double :: "rat \<Rightarrow> jsnum" where
  "to_double q =
     (if q = 0 then Fin 0
      else if 0 < q then (case round_magnitude q of None \<Rightarrow> PosInf | Some v \<Rightarrow> Fin v)
      else (case round_magnitude (- q) of
              None \<Rightarrow> NegInf
            | Some v \<Rightarrow> if v = 0 then NegZero else Fin (- v)))"

text \<open>The sign bit and the value of a finite number.\<close>

fun is_neg :: "jsnum \<Rightarrow> bool" where
  "is_neg (Fin q) = (q < 0)"
| "is_neg NegZero = True"
| "is_neg NegInf = True"
| "is_neg PosInf = False"
| "is_neg NaN = False"

fun finite_value :: "jsnum \<Rightarrow> rat option" where
  "finite_value (Fin q) = Some q"
| "finite_value NegZero = Some 0"
| "finite_value PosInf = None"
| "finite_value NegInf = None"
| "finite_value NaN = None"

definition signed_zero :: "bool \<Rightarrow> jsnum" where
  "signed_zero neg = (if neg then NegZero else Fin 0)"

definition signed_inf :: "bool \<Rightarrow> jsnum" where
  "signed_inf neg = (if neg then NegInf else PosInf)"

text \<open>The operators \<^verbatim>\<open>-\<close>, \<^verbatim>\<open>*\<close> and \<^verbatim>\<open>/\<close> on numbers.\<close>

definition js_sub :: "jsnum \<Rightarrow> jsnum \<Rightarrow> jsnum" where
  "js_sub x y =
     (if x = NaN \<or> y = NaN then NaN
      else case (finite_value x, finite_value y) of
        (None, None) \<Rightarrow> if x = y then NaN else x
      | (None, Some b) \<Rightarrow> x
      | (Some a, None) \<Rightarrow> signed_inf (\<not> is_neg y)
      | (Some a, Some b) \<Rightarrow>
          if a - b = 0 then signed_zero (x = NegZero \<and> y = Fin 0)
          else to_double (a - b))"

definition js_mul :: "jsnum \<Rightarrow> jsnum \<Rightarrow> jsnum" where
  "js_mul x y =
     (if x = NaN \<or> y = NaN then NaN
      else case (finite_value x, finite_value y) of
        (Some a, Some b) \<Rightarrow>
          if a * b = 0 then signed_zero (is_neg x \<noteq> is_neg y) else to_double (a * b)
      | (Some a, None) \<Rightarrow> if a = 0 then NaN else signed_inf (is_neg x \<noteq> is_neg y)
      | (None, Some b) \<Rightarrow> if b = 0 then NaN else signed_inf (is_neg x \<noteq> is_neg y)
      | (None, None) \<Rightarrow> signed_inf (is_neg x \<noteq> is_neg y))"

definition js_div :: "jsnum \<Rightarrow> jsnum \<Rightarrow> jsnum" where
  "js_div x y =
     (if x = NaN \<or> y = NaN then NaN
      else case (finite_value x, finite_value y) of
        (Some a, Some b) \<Rightarrow>
          if b = 0 then (if a = 0 then NaN else signed_inf (is_neg x \<noteq> is_neg y))
          else if a = 0 then signed_zero (is_neg x \<noteq> is_neg y)
          else to_double (a / b)
      | (Some a, None) \<Rightarrow> signed_zero (is_neg x \<noteq> is_neg y)
      | (None, Some b) \<Rightarrow> signed_inf (is_neg x \<noteq> is_neg y)
      | (None, None) \<Rightarrow> NaN)"

text \<open>The decimal digits of a natural number, and a run of zeros.\<close>

definition digit_char :: "int \<Rightarrow> char" where
  "digit_char d = ''0123456789'' ! nat d"

function digits_of :: "int \<Rightarrow> string" where
  "digits_of n =
     (if n < 10 then [digit_char n]
      else digits_of (n div 10) @ [digit_char (n mod 10)])"
  by pat_completeness auto
termination
  by (relation "measure nat") auto

declare digits_of.simps [simp del]

function zeros :: "int \<Rightarrow> string" where
  "zeros n = (if n \<le> 0 then [] else CHR ''0'' # zeros (n - 1))"
  by pat_completeness auto
termination
  by (relation "measure nat") auto

declare zeros.simps [simp del]

text \<open>Number::toString in radix 10. For a positive \<open>q\<close> it looks for the least number
  \<open>k\<close> of digits such that some \<open>s\<close> of \<open>k\<close> digits, scaled by a power of ten, is read
  back as \<open>q\<close>; among two such \<open>s\<close> the nearer one, and the even one when they are as
  near. Seventeen digits always tell a double from its neighbours.\<close>

definition candidates :: "rat \<Rightarrow> int \<Rightarrow> int \<Rightarrow> int list" where
  "candidates q n k =
     (let u = power_of 10 (n - k);
          lo = \<lfloor>q / u\<rfloor>;
          ok = (\<lambda>s. to_double (of_int s * u) = Fin q);
          dist = (\<lambda>s. \<bar>of_int s * u - q\<bar>)
      in case filter ok [lo, lo + 1] of
           [] \<Rightarrow> []
         | [s] \<Rightarrow> [s]
         | s # t # _ \<Rightarrow>
             if dist s < dist t then [s]
             else if dist t < dist s then [t]
             else if even s then [s] else [t])"

function shortest :: "rat \<Rightarrow> int \<Rightarrow> int \<Rightarrow> int \<times> int" where
  "shortest q n k =
     (if 17 \<le> k then (k, round_half_even (q / power_of 10 (n - k)))
      else case candidates q n k of
             s # _ \<Rightarrow> (k, s)
           | [] \<Rightarrow> shortest q n (k + 1))"
  by pat_completeness auto
termination
  by (relation "measure (\<lambda>(q, n, k). nat (17 - k))") auto

declare shortest.simps [simp del]

definition shortest_digits :: "rat \<Rightarrow> string \<times> int" where
  "shortest_digits q =
     (let n = scale_exp 10 q in
      case shortest q n 1 of
        (k, s) \<Rightarrow>
          if s = 10 ^ nat k then (digits_of (10 ^ nat (k - 1)), n + 1) else (digits_of s, n))"

definition positive_toString :: "rat \<Rightarrow> string" where
  "positive_toString q =
     (case shortest_digits q of (ds, n) \<Rightarrow>
        let k = int (length ds) in
        if k \<le> n \<and> n \<le> 21 then ds @ zeros (n - k)
        else if 0 < n \<and> n \<le> 21 then take (nat n) ds @ ''.'' @ drop (nat n) ds
        else if - 6 < n \<and> n \<le> 0 then ''0.'' @ zeros (- n) @ ds
        else let ex = (if 0 \<le> n - 1 then ''+'' else ''-'') @ digits_of \<bar>n - 1\<bar>
             in if k = 1 then ds @ ''e'' @ ex
                else take 1 ds @ ''.'' @ drop 1 ds @ ''e'' @ ex)"

fun numberToString :: "jsnum \<Rightarrow> string" where
  "numberToString NaN = ''NaN''"
| "numberToString NegZero = ''0''"
| "numberToString PosInf = ''Infinity''"
| "numberToString NegInf = ''-Infinity''"
| "numberToString (Fin q) =
     (if q = 0 then ''0''
      else if q < 0 then ''-'' @ positive_toString (- q)
      else positive_toString q)"

text \<open>\<^verbatim>\<open>Number.prototype.toFixed\<close> with \<open>f\<close> fraction digits: the nearest multiple of
  \<open>10 ^ (- f)\<close> to the exact value, the larger one of two; no digits for a number that
  is not finite, and Number::toString from \<open>10 ^ 21\<close> on.\<close>

definition toFixed :: "nat \<Rightarrow> jsnum \<Rightarrow> string" where
  "toFixed f x =
     (case finite_value x of
        None \<Rightarrow> numberToString x
      | Some q \<Rightarrow>
          let s = (if q < 0 then ''-'' else ''''); a = \<bar>q\<bar> in
          if 10 ^ 21 \<le> a then s @ numberToString (Fin a)
          else
            let n = \<lfloor>a * 10 ^ f + 1 / 2\<rfloor>;
                m = digits_of n;
                m' = (if f \<noteq> 0 \<and> length m \<le> f
                      then zeros (int f + 1 - int (length m)) @ m else m)
            in if f \<noteq> 0
               then s @ take (length m' - f) m' @ ''.'' @ drop (length m' - f) m'
               else s @ m')"

section \<open>Data model\<close>

text \<open>The types of \<^verbatim>\<open>@/lib/types\<close>, with the fields this file reads. Every numeric
  field may be absent or null in the JSON the service sends, as \<^verbatim>\<open>formatNumber\<close>
  expects. The coefficients \<^verbatim>\<open>a\<close> and \<^verbatim>\<open>p\<close> are the fields \<open>coef_a\<close> and \<open>coef_p\<close>.\<close>

record StockInput =
  emiten :: string
  fromDate :: string
  toDate :: string

record StockbitData =
  bandar :: string
  barangBandar :: "jsnum nullable"
  rataRataBandar :: "jsnum nullable"

record MarketData =
  harga :: "jsnum nullable"
  offerTeratas :: "jsnum nullable"
  bidTerbawah :: "jsnum nullable"
  fraksi :: "jsnum nullable"
  totalBid :: "jsnum nullable"
  totalOffer :: "jsnum nullable"

record Calculated =
  totalPapan :: "jsnum nullable"
  rataRataBidOfer :: "jsnum nullable"
  coef_a :: "jsnum nullable"
  coef_p :: "jsnum nullable"
  targetRealistis1 :: "jsnum nullable"
  targetMax :: "jsnum nullable"

record StockAnalysisResult =
  input :: StockInput
  stockbitData :: StockbitData
  marketData :: MarketData
  calculated :: Calculated

text \<open>The body of the response of \<^verbatim>\<open>POST /api/stock\<close>, by the three properties
  \<^verbatim>\<open>handleSubmit\<close> reads: \<^verbatim>\<open>json.success\<close>, \<^verbatim>\<open>json.data\<close>, \<^verbatim>\<open>json.error\<close>. The body is an
  object, with a boolean, a result and a string in these places, as the endpoint
  declares; each of them may be absent or null.\<close>

record ApiResponse =
  json_success :: "bool nullable"
  json_data :: "StockAnalysisResult nullable"
  json_error :: "string nullable"

text \<open>A thrown value: an instance of \<^verbatim>\<open>Error\<close> with its message, or anything else.\<close>

datatype thrown = ErrorObject string | NotAnError

text \<open>How the two awaits of \<^verbatim>\<open>handleSubmit\<close> end: \<^verbatim>\<open>fetch\<close> rejects,
  \<^verbatim>\<open>response.json()\<close> rejects, or the body is parsed.\<close>

datatype outcome = FetchRejected thrown | JsonRejected thrown | JsonParsed ApiResponse

text \<open>The four \<^verbatim>\<open>useState\<close> cells of the component.\<close>

record state =
  loading :: bool
  result :: "StockAnalysisResult nullable"
  error :: "string nullable"
  copied :: bool

definition initial_state :: state where
  "initial_state = \<lparr>loading = False, result = Null, error = Null, copied = False\<rparr>"

section \<open>The request orchestrator: handleSubmit\<close>

text \<open>The call of \<^verbatim>\<open>fetch\<close>: the endpoint, the HTTP method and the body (the value
  given to \<^verbatim>\<open>JSON.stringify\<close>).\<close>

record request =
  url :: string
  http_method :: string
  body :: StockInput

definition handleSubmit_request :: "StockInput \<Rightarrow> request" where
  "handleSubmit_request d = \<lparr>url = ''/api/stock'', http_method = ''POST'', body = d\<rparr>"

text \<open>The synchronous prefix of \<^verbatim>\<open>handleSubmit\<close>, lines 80 to 82: it runs to the first
  \<^verbatim>\<open>await\<close>.\<close>

definition handleSubmit_start :: "state \<Rightarrow> state" where
  "handleSubmit_start st = ((st\<lparr>loading := True\<rparr>)\<lparr>error := Null\<rparr>)\<lparr>result := Null\<rparr>"

text \<open>The \<^verbatim>\<open>try\<close> block, lines 85 to 99: the value thrown, or the argument of
  \<^verbatim>\<open>setResult\<close>.\<close>

definition try_block :: "outcome \<Rightarrow> thrown + StockAnalysisResult nullable" where
  "try_block oc =
     (case oc of
        FetchRejected e \<Rightarrow> Inl e
      | JsonRejected e \<Rightarrow> Inl e
      | JsonParsed json \<Rightarrow>
          if \<not> truthy_bool (json_success json)
          then Inl (ErrorObject (or_else (json_error json) ''Failed to analyze stock''))
          else Inr (json_data json))"

text \<open>The \<^verbatim>\<open>catch\<close> clause, line 101.\<close>

definition catch_message :: "thrown \<Rightarrow> string" where
  "catch_message err = (case err of ErrorObject m \<Rightarrow> m | NotAnError \<Rightarrow> ''An error occurred'')"

text \<open>The continuation of \<^verbatim>\<open>handleSubmit\<close> once its awaits have ended: the rest of
  the \<^verbatim>\<open>try\<close> block, the \<^verbatim>\<open>catch\<close> and the \<^verbatim>\<open>finally\<close>. It runs in one turn of the
  event loop, on the state as it is then.\<close>

definition handleSubmit_settle :: "outcome \<Rightarrow> state \<Rightarrow> state" where
  "handleSubmit_settle oc st =
     (let st' = (case try_block oc of
                   Inr d \<Rightarrow> st\<lparr>result := d\<rparr>
                 | Inl err \<Rightarrow> st\<lparr>error := Val (catch_message err)\<rparr>)
      in st'\<lparr>loading := False\<rparr>)"

text \<open>One whole run of \<^verbatim>\<open>handleSubmit\<close> with nothing else in between.\<close>

definition handleSubmit :: "StockInput \<Rightarrow> outcome \<Rightarrow> state \<Rightarrow> state" where
  "handleSubmit d oc st = handleSubmit_settle oc (handleSubmit_start st)"

section \<open>Runs of the component as sequences of events\<close>

text \<open>The component runs on one event loop. A call of \<^verbatim>\<open>handleSubmit\<close> is an event
  (its synchronous prefix); the end of a request's awaits is another (its
  continuation). \<open>Resolve n oc\<close> ends the request that was issued as number \<open>n\<close>; the
  source keeps no token of the request, so the number is not read.\<close>

datatype event = Submit StockInput | Resolve nat outcome

fun step :: "state \<Rightarrow> event \<Rightarrow> state" where
  "step st (Submit d) = handleSubmit_start st"
| "step st (Resolve n oc) = handleSubmit_settle oc st"

definition run :: "event list \<Rightarrow> state \<Rightarrow> state" where
  "run evs st = foldl step st evs"

text \<open>The requests are numbered from 0 in the order of their \<open>Submit\<close> events. A request
  is pending after a run when it has been issued and no \<open>Resolve\<close> has ended it.\<close>

fun issued :: "event list \<Rightarrow> nat" where
  "issued [] = 0"
| "issued (Submit d # evs) = Suc (issued evs)"
| "issued (Resolve n oc # evs) = issued evs"

fun resolved :: "event list \<Rightarrow> nat list" where
  "resolved [] = []"
| "resolved (Submit d # evs) = resolved evs"
| "resolved (Resolve n oc # evs) = n # resolved evs"

definition pending :: "event list \<Rightarrow> nat list" where
  "pending evs = filter (\<lambda>n. n \<notin> set (resolved evs)) [0 ..< issued evs]"

section \<open>The result serializer: formatResultForCopy\<close>

text \<open>Two functions of the host are parameters: \<^verbatim>\<open>Number.prototype.toLocaleString\<close>,
  which follows the locale of the browser, and \<^verbatim>\<open>String.prototype.toUpperCase\<close>, whose
  Unicode tables reach beyond the code units a \<open>char\<close> holds.\<close>

record host =
  toLocaleString :: "jsnum \<Rightarrow> string"
  toUpperCase :: "string \<Rightarrow> string"

text \<open>\<^verbatim>\<open>num?.toLocaleString()\<close>: undefined when \<^verbatim>\<open>num\<close> is null or undefined.\<close>

definition optional_toLocaleString :: "host \<Rightarrow> jsnum nullable \<Rightarrow> string nullable" where
  "optional_toLocaleString h num =
     (case num of Val x \<Rightarrow> Val (toLocaleString h x) | Null \<Rightarrow> Undefined | Undefined \<Rightarrow> Undefined)"

text \<open>\<^verbatim>\<open>x ?? d\<close> at type string.\<close>

definition nullish_coalesce :: "string nullable \<Rightarrow> string \<Rightarrow> string" where
  "nullish_coalesce x d = (case x of Val s \<Rightarrow> s | Null \<Rightarrow> d | Undefined \<Rightarrow> d)"

text \<open>Line 20.\<close>

definition formatNumber :: "host \<Rightarrow> jsnum nullable \<Rightarrow> string" where
  "formatNumber h num = nullish_coalesce (optional_toLocaleString h num) ''-''"

text \<open>Lines 22 to 25: the constant \<^verbatim>\<open>gain\<close> and the function \<^verbatim>\<open>calculateGain\<close>. The
  operands of the arithmetic go through ToNumber.\<close>

definition gain :: "StockAnalysisResult \<Rightarrow> jsnum nullable \<Rightarrow> jsnum" where
  "gain r target =
     js_mul
       (js_div (js_sub (ToNumber target) (ToNumber (harga (marketData r))))
               (ToNumber (harga (marketData r))))
       (Fin 100)"

definition calculateGain :: "StockAnalysisResult \<Rightarrow> jsnum nullable \<Rightarrow> string" where
  "calculateGain r target = toFixed 2 (gain r target)"

text \<open>A number in a template literal: ToString.\<close>

fun template :: "jsnum nullable \<Rightarrow> string" where
  "template Undefined = ''undefined''"
| "template Null = ''null''"
| "template (Val x) = numberToString x"

text \<open>The character U+00B2 (superscript two) of three labels.\<close>

definition sup2 :: string where
  "sup2 = [CHR 0xB2]"

text \<open>Lines 27 to 53: the array \<^verbatim>\<open>lines\<close>.\<close>

definition formatResultForCopy_lines :: "host \<Rightarrow> StockAnalysisResult \<Rightarrow> string list" where
  "formatResultForCopy_lines h r =
     [''ANALISIS SAHAM: '' @ toUpperCase h (emiten (input r)),
      ''Periode: '' @ fromDate (input r) @ '' s/d '' @ toDate (input r),
      '''',
      ''TOP BROKER'',
      ''Broker: '' @ bandar (stockbitData r),
      ''Barang Bandar: '' @ formatNumber h (barangBandar (stockbitData r)) @ '' lot'',
      ''Rata-rata Harga: Rp '' @ formatNumber h (rataRataBandar (stockbitData r)),
      '''',
      ''MARKET DATA'',
      ''Harga: Rp '' @ formatNumber h (harga (marketData r)),
      ''Offer Max: Rp '' @ formatNumber h (offerTeratas (marketData r)),
      ''Bid Min: Rp '' @ formatNumber h (bidTerbawah (marketData r)),
      ''Fraksi: '' @ formatNumber h (fraksi (marketData r)),
      ''Total Bid: '' @
        formatNumber h (Val (js_div (ToNumber (totalBid (marketData r))) (Fin 100))),
      ''Total Offer: '' @
        formatNumber h (Val (js_div (ToNumber (totalOffer (marketData r))) (Fin 100))),
      '''',
      ''CALCULATIONS'',
      ''Total Papan: '' @ formatNumber h (totalPapan (calculated r)),
      ''Rata'' @ sup2 @ '' Bid/Offer: '' @ formatNumber h (rataRataBidOfer (calculated r)),
      ''a (5% dari rata'' @ sup2 @ '' bandar): '' @ formatNumber h (coef_a (calculated r)),
      ''p (Barang/Rata'' @ sup2 @ '' Bid Offer): '' @ formatNumber h (coef_p (calculated r)),
      '''',
      ''TARGET PRICES'',
      ''Target Min: '' @ template (targetRealistis1 (calculated r)) @ '' (+'' @
        calculateGain r (targetRealistis1 (calculated r)) @ ''%)'',
      ''Target Max: '' @ template (targetMax (calculated r)) @ '' (+'' @
        calculateGain r (targetMax (calculated r)) @ ''%)'']"

text \<open>\<^verbatim>\<open>Array.prototype.join\<close> on strings.\<close>

fun join :: "string \<Rightarrow> string list \<Rightarrow> string" where
  "join sep [] = []"
| "join sep [x] = x"
| "join sep (x # y # ys) = x @ sep @ join sep (y # ys)"

definition formatResultForCopy :: "host \<Rightarrow> StockAnalysisResult \<Rightarrow> string" where
  "formatResultForCopy h r = join [CHR 0x0A] (formatResultForCopy_lines h r)"

section \<open>The copy action: handleCopy\<close>

text \<open>How \<^verbatim>\<open>navigator.clipboard.writeText\<close> ends.\<close>

datatype clipboard_outcome = WriteResolved | WriteRejected thrown

text \<open>What the copy action does outside the four state cells: the text it hands to the
  clipboard, the timer it sets (its delay in milliseconds; the callback is
  \<open>copied_timeout\<close>) and what it logs.\<close>

datatype effect = ClipboardWrite string | SetTimeout nat | ConsoleError string thrown

text \<open>Lines 108 and 111: the guard, and the text given to the clipboard. On a result of
  the declared type the serializer throws nothing, so the \<^verbatim>\<open>catch\<close> is reached from the
  clipboard only.\<close>

definition handleCopy_text :: "host \<Rightarrow> state \<Rightarrow> string option" where
  "handleCopy_text h st =
     (if \<not> truthy_object (result st) then None
      else case result st of
             Val r \<Rightarrow> Some (formatResultForCopy h r)
           | Null \<Rightarrow> None
           | Undefined \<Rightarrow> None)"

text \<open>Lines 113 to 117: the continuation after the await, and the \<^verbatim>\<open>catch\<close>.\<close>

definition handleCopy_settle :: "clipboard_outcome \<Rightarrow> state \<Rightarrow> state \<times> effect list" where
  "handleCopy_settle co st =
     (case co of
        WriteResolved \<Rightarrow> (st\<lparr>copied := True\<rparr>, [SetTimeout 2000])
      | WriteRejected err \<Rightarrow> (st, [ConsoleError ''Failed to copy:'' err]))"

definition handleCopy :: "host \<Rightarrow> clipboard_outcome \<Rightarrow> state \<Rightarrow> state \<times> effect list" where
  "handleCopy h co st =
     (case handleCopy_text h st of
        None \<Rightarrow> (st, [])
      | Some formattedText \<Rightarrow>
          (fst (handleCopy_settle co st),
           ClipboardWrite formattedText # snd (handleCopy_settle co st)))"

text \<open>The callback of the timer, line 114.\<close>

definition copied_timeout :: "state \<Rightarrow> state" where
  "copied_timeout st = st\<lparr>copied := False\<rparr>"

section \<open>The effect on selectedStock\<close>

text \<open>Lines 66 to 76, the body of the effect. \<open>defaultDate\<close> is what the one call of
  \<^verbatim>\<open>getDefaultDate\<close> (of \<^verbatim>\<open>@/lib/utils\<close>) returns. The result is the state after the
  synchronous part, and the request sent, if any.\<close>

definition selectedStock_effect ::
  "string \<Rightarrow> string nullable \<Rightarrow> state \<Rightarrow> state \<times> request option" where
  "selectedStock_effect defaultDate selectedStock st =
     (if truthy_string selectedStock
      then case selectedStock of
             Val s \<Rightarrow>
               (handleSubmit_start ((st\<lparr>result := Null\<rparr>)\<lparr>error := Null\<rparr>),
                Some (handleSubmit_request
                        \<lparr>emiten = s, fromDate = defaultDate, toDate = defaultDate\<rparr>))
           | Null \<Rightarrow> (st, None)
           | Undefined \<Rightarrow> (st, None)
      else (st, None))"

text \<open>Line 77, the dependency array \<^verbatim>\<open>[selectedStock]\<close>: React runs the effect after
  the first render (\<open>prev = None\<close>) and after every render in which the value differs
  from that of the render before.\<close>

definition useEffect_selectedStock ::
  "string \<Rightarrow> string nullable option \<Rightarrow> string nullable \<Rightarrow> state \<Rightarrow> state \<times> request option" where
  "useEffect_selectedStock defaultDate prev selectedStock st =
     (if prev = Some selectedStock then (st, None)
      else selectedStock_effect defaultDate selectedStock st)"

section \<open>A host for the examples\<close>

text \<open>Formatting as the locale en-US does with the default options: the magnitude
  rounded to at most three decimals (a half goes away from zero), the integer part in
  groups of three digits. The sign of infinity, U+221E, is written by the three bytes
  of its UTF-8 form.\<close>

function group_thousands :: "int \<Rightarrow> string" where
  "group_thousands n =
     (if n < 1000 then digits_of n
      else group_thousands (n div 1000) @ '','' @ tl (digits_of (1000 + n mod 1000)))"
  by pat_completeness auto
termination
  by (relation "measure nat") auto

declare group_thousands.simps [simp del]

fun strip_zeros :: "string \<Rightarrow> string" where
  "strip_zeros s = rev (dropWhile (\<lambda>c. c = CHR ''0'') (rev s))"

definition enUS_toLocaleString :: "jsnum \<Rightarrow> string" where
  "enUS_toLocaleString x =
     (case x of
        NaN \<Rightarrow> ''NaN''
      | PosInf \<Rightarrow> [CHR 0xE2, CHR 0x88, CHR 0x9E]
      | NegInf \<Rightarrow> ''-'' @ [CHR 0xE2, CHR 0x88, CHR 0x9E]
      | NegZero \<Rightarrow> ''-0''
      | Fin q \<Rightarrow>
          let n = \<lfloor>\<bar>q\<bar> * 1000 + 1 / 2\<rfloor>
          in (if q < 0 then ''-'' else '''') @ group_thousands (n div 1000) @
             (if n mod 1000 = 0 then ''''
              else ''.'' @ strip_zeros (tl (digits_of (1000 + n mod 1000)))))"

definition ascii_toUpperCase :: "string \<Rightarrow> string" where
  "ascii_toUpperCase s =
     map (\<lambda>c. case map_of (zip ''abcdefghijklmnopqrstuvwxyz'' ''ABCDEFGHIJKLMNOPQRSTUVWXYZ'') c of
                 Some u \<Rightarrow> u
               | None \<Rightarrow> c) s"

definition enUS :: host where
  "enUS = \<lparr>toLocaleString = enUS_toLocaleString, toUpperCase = ascii_toUpperCase\<rparr>"

section \<open>Example values\<close>

text \<open>The example of the specification: ticker BBCA, the period 2024-01-01 to
  2024-01-31, market price 9000, target 9500.\<close>

definition example_input :: StockInput where
  "example_input = \<lparr>emiten = ''bbca'', fromDate = ''2024-01-01'', toDate = ''2024-01-31''\<rparr>"

definition example_result :: StockAnalysisResult where
  "example_result =
     \<lparr>input = example_input,
      stockbitData = \<lparr>bandar = ''AK'', barangBandar = Val (Fin 1234567),
                      rataRataBandar = Val (Fin 8950)\<rparr>,
      marketData = \<lparr>harga = Val (Fin 9000), offerTeratas = Val (Fin 9200),
                    bidTerbawah = Val (Fin 8800), fraksi = Val (Fin 25),
                    totalBid = Val (Fin 1500000), totalOffer = Val (Fin 2500000)\<rparr>,
      calculated = \<lparr>totalPapan = Val (Fin 40000), rataRataBidOfer = Val (Fin 2000),
                    coef_a = Val (Fin (895 / 2)), coef_p = Val (Fin 617),
                    targetRealistis1 = Val (Fin 9500), targetMax = Val (Fin 8500)\<rparr>\<rparr>"

definition stale_state :: state where
  "stale_state = \<lparr>loading = False, result = Val example_result,
                    error = Val ''old error'', copied = True\<rparr>"

section \<open>Evaluation of the numeric functions\<close>

lemma floor_numeral_div: "\<lfloor>numeral a / numeral b :: rat\<rfloor> = numeral a div numeral b"
  using floor_divide_of_int_eq [of "numeral a" "numeral b", where ?'a = rat] by simp

lemma ceiling_numeral_div:
  "\<lceil>numeral a / numeral b :: rat\<rceil> = - (- numeral a div numeral b)"
  using floor_divide_of_int_eq [of "- numeral a" "numeral b", where ?'a = rat]
  by (simp add: ceiling_def)

lemma floor_one_div: "\<lfloor>1 / numeral b :: rat\<rfloor> = 1 div numeral b"
  using floor_divide_of_int_eq [of 1 "numeral b", where ?'a = rat] by simp

lemma ceiling_one_div: "\<lceil>1 / numeral b :: rat\<rceil> = - (- 1 div numeral b)"
  using floor_divide_of_int_eq [of "- 1" "numeral b", where ?'a = rat]
  by (simp add: ceiling_def)

lemmas js_eval =
  js_sub_def js_div_def js_mul_def to_double_def round_magnitude_def scale_exp_def
  ndigits.simps power_of_def round_half_even_def Let_def signed_zero_def signed_inf_def
  toFixed_def digits_of.simps digit_char_def zeros.simps floor_numeral_div
  ceiling_numeral_div floor_one_div ceiling_one_div positive_toString_def shortest_digits_def candidates_def
  shortest.simps

lemmas enUS_eval =
  enUS_def enUS_toLocaleString_def group_thousands.simps ascii_toUpperCase_def

text \<open>The model at values whose JavaScript results are well known: one tenth is not a
  double, 1.005 lies below its decimal and 8.345 above, and a small negative number
  keeps its sign under \<open>toFixed\<close>.\<close>

lemma double_examples:
  "to_double (1 / 10) = Fin (3602879701896397 / 36028797018963968)"
  "js_div (Fin 1) (Fin 0) = PosInf"
  "js_div (Fin 0) (Fin 0) = NaN"
  "js_sub (Fin 5) (Fin 5) = Fin 0"
  by (simp_all add: js_eval)

lemma toFixed_examples:
  "toFixed 2 (to_double (1005 / 1000)) = ''1.00''"
  "toFixed 2 (to_double (8345 / 1000)) = ''8.35''"
  "toFixed 2 (to_double (- (1 / 1000))) = ''-0.00''"
  "toFixed 2 NegZero = ''0.00''"
  "toFixed 2 NaN = ''NaN''"
  by (simp_all add: js_eval)

lemma numberToString_examples:
  "numberToString (to_double (1 / 10)) = ''0.1''"
  "numberToString (to_double (10 ^ 21)) = ''1e+21''"
  "numberToString (to_double (5 / 10 ^ 7)) = ''5e-7''"
  "numberToString (Fin (- (2469 / 2))) = ''-1234.5''"
  by (simp_all add: js_eval)

lemma gain_9500: "toFixed 2 (js_mul (js_div (js_sub (Fin 9500) (Fin 9000)) (Fin 9000)) (Fin 100)) = ''5.56''"
  by (simp add: js_eval)

lemma gain_8500_value:
  "js_mul (js_div (js_sub (Fin 8500) (Fin 9000)) (Fin 9000)) (Fin 100) =
     Fin (- (3127499741229511 / 562949953421312))"
  by (simp add: js_eval)

lemma gain_8500: "toFixed 2 (Fin (- (3127499741229511 / 562949953421312))) = ''-5.56''"
  by (simp add: js_eval)

lemma gain_zero_price:
  "toFixed 2 (js_mul (js_div (js_sub (Fin 9500) (Fin 0)) (Fin 0)) (Fin 100)) = ''Infinity''"
  by (simp add: js_eval)

lemma numberToString_9500: "positive_toString 9500 = ''9500''"
  by (simp add: js_eval)

lemma numberToString_8500: "positive_toString 8500 = ''8500''"
  by (simp add: js_eval)

lemma enUS_values:
  "enUS_toLocaleString (Fin 1234567) = ''1,234,567''"
  "enUS_toLocaleString (Fin 8950) = ''8,950''"
  "enUS_toLocaleString (Fin 9000) = ''9,000''"
  "enUS_toLocaleString (Fin 9200) = ''9,200''"
  "enUS_toLocaleString (Fin 8800) = ''8,800''"
  "enUS_toLocaleString (Fin 25) = ''25''"
  "enUS_toLocaleString (Fin 40000) = ''40,000''"
  "enUS_toLocaleString (Fin 2000) = ''2,000''"
  "enUS_toLocaleString (Fin (895 / 2)) = ''447.5''"
  "enUS_toLocaleString (Fin 617) = ''617''"
  "enUS_toLocaleString (Fin 9500) = ''9,500''"
  "enUS_toLocaleString (Fin 0) = ''0''"
  by (simp_all add: enUS_eval digits_of.simps digit_char_def floor_numeral_div floor_one_div)

lemma enUS_totals:
  "enUS_toLocaleString (js_div (Fin 1500000) (Fin 100)) = ''15,000''"
  "enUS_toLocaleString (js_div (Fin 2500000) (Fin 100)) = ''25,000''"
  "enUS_toLocaleString (js_div (Fin 0) (Fin 100)) = ''0''"
  by (simp_all add: enUS_eval js_eval)

lemmas example_eval =
  formatResultForCopy_lines_def example_result_def example_input_def formatNumber_def
  optional_toLocaleString_def nullish_coalesce_def calculateGain_def gain_def
  gain_9500 gain_8500_value gain_8500 gain_zero_price numberToString_9500
  numberToString_8500 enUS_values enUS_totals

lemma example_lines:
  "formatResultForCopy_lines enUS example_result =
     [''ANALISIS SAHAM: BBCA'',
      ''Periode: 2024-01-01 s/d 2024-01-31'',
      '''',
      ''TOP BROKER'',
      ''Broker: AK'',
      ''Barang Bandar: 1,234,567 lot'',
      ''Rata-rata Harga: Rp 8,950'',
      '''',
      ''MARKET DATA'',
      ''Harga: Rp 9,000'',
      ''Offer Max: Rp 9,200'',
      ''Bid Min: Rp 8,800'',
      ''Fraksi: 25'',
      ''Total Bid: 15,000'',
      ''Total Offer: 25,000'',
      '''',
      ''CALCULATIONS'',
      ''Total Papan: 40,000'',
      ''Rata'' @ sup2 @ '' Bid/Offer: 2,000'',
      ''a (5% dari rata'' @ sup2 @ '' bandar): 447.5'',
      ''p (Barang/Rata'' @ sup2 @ '' Bid Offer): 617'',
      '''',
      ''TARGET PRICES'',
      ''Target Min: 9500 (+5.56%)'',
      ''Target Max: 8500 (+-5.56%)'']"
  by (simp add: example_eval enUS_def ascii_toUpperCase_def)

section \<open>Digits\<close>

lemma digit_char_digit: "0 \<le> d \<Longrightarrow> d < 10 \<Longrightarrow> digit_char d \<in> set ''0123456789''"
proof -
  assume "0 \<le> d" "d < 10"
  then have "nat d < length ''0123456789''"
    by simp
  then show ?thesis
    unfolding digit_char_def by (rule nth_mem)
qed

lemma digits_of_digits: "0 \<le> n \<Longrightarrow> set (digits_of n) \<subseteq> set ''0123456789''"
proof (induction n rule: digits_of.induct)
  case (1 n)
  show ?case
  proof (cases "n < 10")
    case True
    with "1.prems" have "digit_char n \<in> set ''0123456789''"
      by (rule digit_char_digit)
    with True show ?thesis
      by (subst digits_of.simps) simp
  next
    case False
    with "1.prems" have "0 \<le> n div 10"
      by simp
    with "1.IH" False have ih: "set (digits_of (n div 10)) \<subseteq> set ''0123456789''"
      by simp
    have "digit_char (n mod 10) \<in> set ''0123456789''"
      by (rule digit_char_digit) simp_all
    with ih False show ?thesis
      by (subst digits_of.simps) simp
  qed
qed

lemma digits_of_nonempty: "digits_of n \<noteq> []"
  by (subst digits_of.simps) simp

lemma zeros_digits: "set (zeros n) \<subseteq> set ''0123456789''"
proof (induction n rule: zeros.induct)
  case (1 n)
  then show ?case
    by (subst zeros.simps) auto
qed

lemma length_zeros: "length (zeros n) = nat n"
proof (induction n rule: zeros.induct)
  case (1 n)
  then show ?case
    by (subst zeros.simps) auto
qed

lemma split_last_two:
  assumes "3 \<le> length m"
  shows "\<exists>ds d1 d2. take (length m - 2) m @ ''.'' @ drop (length m - 2) m =
                      ds @ ''.'' @ [d1, d2] \<and> ds \<noteq> [] \<and> set (ds @ [d1, d2]) = set m"
proof -
  let ?b = "drop (length m - 2) m"
  from assms have "length ?b = 2"
    by simp
  then obtain d1 d2 where b: "?b = [d1, d2]"
    by (cases ?b; cases "tl ?b") auto
  from assms have ne: "take (length m - 2) m \<noteq> []"
    by auto
  have "set (take (length m - 2) m @ ?b) = set m"
    by simp
  with b have "set (take (length m - 2) m @ [d1, d2]) = set m"
    by simp
  with b ne show ?thesis
    by auto
qed

lemma toFixed_2_shape:
  assumes fin: "finite_value x = Some g" and small: "\<bar>g\<bar> < 10 ^ 21"
  shows "\<exists>ds d1 d2. toFixed 2 x = (if g < 0 then ''-'' else '''') @ ds @ ''.'' @ [d1, d2]
            \<and> ds \<noteq> [] \<and> set (ds @ [d1, d2]) \<subseteq> set ''0123456789''"
proof -
  define n where "n = \<lfloor>\<bar>g\<bar> * 10 ^ 2 + 1 / 2\<rfloor>"
  define m where "m = digits_of n"
  define m' where "m' = (if length m \<le> 2 then zeros (int 2 + 1 - int (length m)) @ m else m)"
  have "0 \<le> \<bar>g\<bar> * 10 ^ 2 + 1 / 2"
    by simp
  then have "0 \<le> n"
    unfolding n_def by simp
  then have dm: "set m \<subseteq> set ''0123456789''"
    unfolding m_def by (rule digits_of_digits)
  have dm': "set m' \<subseteq> set ''0123456789''"
    using dm zeros_digits [of "int 2 + 1 - int (length m)"] by (auto simp: m'_def)
  have len: "3 \<le> length m'"
    by (auto simp: m'_def length_zeros)
  have eq: "toFixed 2 x =
              (if g < 0 then ''-'' else '''') @
              take (length m' - 2) m' @ ''.'' @ drop (length m' - 2) m'"
    using fin small by (simp add: toFixed_def Let_def m'_def m_def n_def)
  from split_last_two [OF len] obtain ds d1 d2 where
    split: "take (length m' - 2) m' @ ''.'' @ drop (length m' - 2) m' = ds @ ''.'' @ [d1, d2]"
    and ne: "ds \<noteq> []" and same: "set (ds @ [d1, d2]) = set m'"
    by blast
  have shape: "toFixed 2 x = (if g < 0 then ''-'' else '''') @ ds @ ''.'' @ [d1, d2]"
    unfolding eq split by (rule refl)
  have digits: "set (ds @ [d1, d2]) \<subseteq> set ''0123456789''"
    unfolding same by (rule dm')
  from shape ne digits show ?thesis
    by blast
qed

section \<open>Bounds of the double arithmetic\<close>

text \<open>Rounding at most doubles a magnitude, and does not reach infinity below
  \<open>2 ^ 1023\<close>; so the gain is finite when the price is not zero and the target is not
  too far from it.\<close>

lemma round_half_even_bounds:
  assumes "0 \<le> x"
  shows "0 \<le> round_half_even x \<and> of_int (round_half_even x) \<le> 2 * x"
proof -
  define f where "f = \<lfloor>x\<rfloor>"
  have f0: "0 \<le> f"
    using assms by (simp add: f_def)
  have fx: "of_int f \<le> x"
    by (simp add: f_def)
  have up: "\<not> x - of_int f < 1 / 2 \<Longrightarrow> of_int (f + 1) \<le> 2 * x"
  proof -
    assume "\<not> x - of_int f < 1 / 2"
    then have "of_int f + 1 / 2 \<le> x"
      by simp
    moreover have "(0::rat) \<le> of_int f"
      using f0 by simp
    ultimately show ?thesis
      by simp
  qed
  have low: "of_int f \<le> 2 * x"
    using fx assms by linarith
  show ?thesis
    unfolding round_half_even_def Let_def f_def [symmetric]
    using f0 up low by auto
qed

lemma power_of_pos: "0 < b \<Longrightarrow> 0 < power_of b e"
  by (simp add: power_of_def)

lemma round_magnitude_le:
  assumes "0 < a" and "a < 2 ^ 1023"
  shows "\<exists>v. round_magnitude a = Some v \<and> 0 \<le> v \<and> v \<le> 2 * a"
proof -
  define u where "u = power_of 2 (max (scale_exp 2 a - 1) (- 1022) - 52)"
  define v where "v = of_int (round_half_even (a / u)) * u"
  have u: "0 < u"
    unfolding u_def by (rule power_of_pos) simp
  with assms have "0 \<le> a / u"
    by simp
  from round_half_even_bounds [OF this]
  have r0: "0 \<le> round_half_even (a / u)" and r2: "of_int (round_half_even (a / u)) \<le> 2 * (a / u)"
    by simp_all
  from r0 u have v0: "0 \<le> v"
    by (simp add: v_def)
  from r2 u have "of_int (round_half_even (a / u)) * u \<le> 2 * (a / u) * u"
    by (intro mult_right_mono) simp_all
  with u have v2: "v \<le> 2 * a"
    by (simp add: v_def)
  have "power_of 2 1024 = 2 ^ 1024"
    by (simp add: power_of_def)
  moreover from v2 assms have "v < 2 ^ 1024"
    by simp
  ultimately have "round_magnitude a = Some v"
    by (simp add: round_magnitude_def Let_def u_def v_def)
  with v0 v2 show ?thesis
    by blast
qed

lemma to_double_le:
  assumes "\<bar>q\<bar> < 2 ^ 1023"
  shows "\<exists>g. finite_value (to_double q) = Some g \<and> \<bar>g\<bar> \<le> 2 * \<bar>q\<bar>"
proof -
  consider "q = 0" | "0 < q" | "q < 0"
    by linarith
  then show ?thesis
  proof cases
    case 1
    then show ?thesis
      by (simp add: to_double_def)
  next
    case 2
    with assms round_magnitude_le [of q] obtain v where
      "round_magnitude q = Some v" "0 \<le> v" "v \<le> 2 * q"
      by auto
    with 2 show ?thesis
      by (simp add: to_double_def)
  next
    case 3
    with assms round_magnitude_le [of "- q"] obtain v where
      "round_magnitude (- q) = Some v" "0 \<le> v" "v \<le> 2 * (- q)"
      by auto
    with 3 show ?thesis
      by (simp add: to_double_def)
  qed
qed

lemma js_sub_finite:
  assumes "\<bar>a - b\<bar> < 2 ^ 1023"
  shows "\<exists>g. finite_value (js_sub (Fin a) (Fin b)) = Some g \<and> \<bar>g\<bar> \<le> 2 * \<bar>a - b\<bar>"
  using to_double_le [OF assms] by (simp add: js_sub_def signed_zero_def)

lemma js_div_finite:
  assumes "finite_value x = Some a" and "p \<noteq> 0" and "\<bar>a / p\<bar> < 2 ^ 1023"
  shows "\<exists>g. finite_value (js_div x (Fin p)) = Some g \<and> \<bar>g\<bar> \<le> 2 * \<bar>a / p\<bar>"
proof -
  from assms(1) have "x \<noteq> NaN"
    by auto
  with assms to_double_le [OF assms(3)] show ?thesis
    by (simp add: js_div_def signed_zero_def)
qed

lemma js_mul_finite:
  assumes "finite_value x = Some a" and "\<bar>a * c\<bar> < 2 ^ 1023"
  shows "\<exists>g. finite_value (js_mul x (Fin c)) = Some g \<and> \<bar>g\<bar> \<le> 2 * \<bar>a * c\<bar>"
proof -
  from assms(1) have "x \<noteq> NaN"
    by auto
  with assms to_double_le [OF assms(2)] show ?thesis
    by (simp add: js_mul_def signed_zero_def)
qed

lemma gain_finite:
  assumes h: "harga (marketData r) = Val (Fin p)" and p: "p \<noteq> 0"
    and d: "\<bar>q - p\<bar> < 2 ^ 1023" and ratio: "\<bar>q - p\<bar> \<le> 10 ^ 18 * \<bar>p\<bar>"
  shows "\<exists>g. finite_value (gain r (Val (Fin q))) = Some g \<and> \<bar>g\<bar> < 10 ^ 21"
proof -
  from js_sub_finite [OF d] obtain g1 where
    g1: "finite_value (js_sub (Fin q) (Fin p)) = Some g1" and b1: "\<bar>g1\<bar> \<le> 2 * \<bar>q - p\<bar>"
    by blast
  from p have pp: "0 < \<bar>p\<bar>"
    by simp
  from b1 ratio have "\<bar>g1\<bar> \<le> 2 * 10 ^ 18 * \<bar>p\<bar>"
    by simp
  with pp have q1: "\<bar>g1 / p\<bar> \<le> 2 * 10 ^ 18"
    by (simp add: abs_divide pos_divide_le_eq)
  then have "\<bar>g1 / p\<bar> < 2 ^ 1023"
    by simp
  from js_div_finite [OF g1 p this] obtain g2 where
    g2: "finite_value (js_div (js_sub (Fin q) (Fin p)) (Fin p)) = Some g2"
    and b2: "\<bar>g2\<bar> \<le> 2 * \<bar>g1 / p\<bar>"
    by blast
  from b2 q1 have q2: "\<bar>g2 * 100\<bar> \<le> 4 * 10 ^ 20"
    by (simp add: abs_mult)
  then have "\<bar>g2 * 100\<bar> < 2 ^ 1023"
    by simp
  from js_mul_finite [OF g2 this] obtain g3 where
    g3: "finite_value (js_mul (js_div (js_sub (Fin q) (Fin p)) (Fin p)) (Fin 100)) = Some g3"
    and b3: "\<bar>g3\<bar> \<le> 2 * \<bar>g2 * 100\<bar>"
    by blast
  from b3 q2 have "\<bar>g3\<bar> < 10 ^ 21"
    by simp
  with g3 h show ?thesis
    by (simp add: gain_def)
qed

section \<open>Properties of handleSubmit\<close>

text \<open>C1. For every response body whose \<open>success\<close> is \<open>true\<close>, a run of
  \<open>handleSubmit\<close> ends with the loading flag off, no error, and the stored result equal
  to the body's \<open>data\<close> field as it was received.\<close>

theorem handleSubmit_success:
  assumes "json_success json = Val True"
  shows "handleSubmit d (JsonParsed json) st =
           \<lparr>loading = False, result = json_data json, error = Null, copied = copied st\<rparr>"
  using assms
  by (simp add: handleSubmit_def handleSubmit_settle_def handleSubmit_start_def try_block_def)

theorem handleSubmit_success_witness:
  "handleSubmit example_input
     (JsonParsed \<lparr>json_success = Val True, json_data = Val example_result,
                   json_error = Undefined\<rparr>) stale_state =
   \<lparr>loading = False, result = Val example_result, error = Null, copied = True\<rparr>"
  using handleSubmit_success
          [of "\<lparr>json_success = Val True, json_data = Val example_result,
                json_error = Undefined\<rparr>" example_input stale_state]
  by (simp add: stale_state_def)

text \<open>C2. For every response body whose \<open>success\<close> is \<open>false\<close> or absent, a run of
  \<open>handleSubmit\<close> ends with the loading flag off, no result, and the error message equal
  to the body's \<open>error\<close> field when that is a non-empty string, and to the fixed text
  \<^verbatim>\<open>Failed to analyze stock\<close> otherwise.\<close>

theorem handleSubmit_reported_failure:
  assumes "json_success json = Val False \<or> json_success json = Undefined"
  shows "handleSubmit d (JsonParsed json) st =
           \<lparr>loading = False, result = Null,
            error = Val (case json_error json of
                           Val m \<Rightarrow> if m \<noteq> [] then m else ''Failed to analyze stock''
                         | Null \<Rightarrow> ''Failed to analyze stock''
                         | Undefined \<Rightarrow> ''Failed to analyze stock''),
            copied = copied st\<rparr>"
proof -
  from assms have falsy: "\<not> truthy_bool (json_success json)"
    by auto
  have msg: "or_else (json_error json) ''Failed to analyze stock'' =
               (case json_error json of
                  Val m \<Rightarrow> if m \<noteq> [] then m else ''Failed to analyze stock''
                | Null \<Rightarrow> ''Failed to analyze stock''
                | Undefined \<Rightarrow> ''Failed to analyze stock'')"
    by (simp add: or_else_def split: nullable.split)
  show ?thesis
    using falsy
    by (simp add: handleSubmit_def handleSubmit_settle_def handleSubmit_start_def
        try_block_def catch_message_def msg)
qed

theorem handleSubmit_reported_failure_witness:
  "handleSubmit example_input
     (JsonParsed \<lparr>json_success = Val False, json_data = Undefined,
                   json_error = Val ''Emiten not found''\<rparr>) stale_state =
     \<lparr>loading = False, result = Null, error = Val ''Emiten not found'', copied = True\<rparr>
   \<and> handleSubmit example_input
     (JsonParsed \<lparr>json_success = Undefined, json_data = Undefined,
                   json_error = Undefined\<rparr>) stale_state =
     \<lparr>loading = False, result = Null, error = Val ''Failed to analyze stock'',
      copied = True\<rparr>"
  using handleSubmit_reported_failure
          [of "\<lparr>json_success = Val False, json_data = Undefined,
                json_error = Val ''Emiten not found''\<rparr>" example_input stale_state]
        handleSubmit_reported_failure
          [of "\<lparr>json_success = Undefined, json_data = Undefined,
                json_error = Undefined\<rparr>" example_input stale_state]
  by (simp add: stale_state_def)

text \<open>C3. After every run of \<open>handleSubmit\<close> the loading flag is off, whatever the
  outcome of the request: success, a reported failure, or a value thrown by the fetch
  or by the parsing of the body. The same holds of the continuation alone, from any
  state it finds. (A request that never ends has no continuation: the run stops after
  \<open>Submit\<close>, with the flag on.)\<close>

theorem handleSubmit_clears_loading:
  "loading (handleSubmit d oc st) = False \<and> loading (handleSubmit_settle oc st') = False"
  by (simp add: handleSubmit_def handleSubmit_settle_def Let_def split: sum.split)

text \<open>C6. When the fetch or the parsing of the body throws, a run of \<open>handleSubmit\<close>
  ends with the loading flag off, no result, and the error message equal to the thrown
  value's message when it is an \<^verbatim>\<open>Error\<close>, and to \<^verbatim>\<open>An error occurred\<close> otherwise.\<close>

theorem handleSubmit_thrown:
  "handleSubmit d (FetchRejected (ErrorObject m)) st =
     \<lparr>loading = False, result = Null, error = Val m, copied = copied st\<rparr>
   \<and> handleSubmit d (JsonRejected (ErrorObject m)) st =
     \<lparr>loading = False, result = Null, error = Val m, copied = copied st\<rparr>
   \<and> handleSubmit d (FetchRejected NotAnError) st =
     \<lparr>loading = False, result = Null, error = Val ''An error occurred'', copied = copied st\<rparr>
   \<and> handleSubmit d (JsonRejected NotAnError) st =
     \<lparr>loading = False, result = Null, error = Val ''An error occurred'', copied = copied st\<rparr>"
  by (simp add: handleSubmit_def handleSubmit_settle_def handleSubmit_start_def
      try_block_def catch_message_def)

text \<open>A run of calls alone, with no continuation in between, leaves the state as the
  first call made it.\<close>

lemma handleSubmit_start_idem: "handleSubmit_start (handleSubmit_start st) = handleSubmit_start st"
  by (simp add: handleSubmit_start_def)

lemma submits_keep_cleared:
  "\<forall>e \<in> set evs. \<exists>d'. e = Submit d' \<Longrightarrow>
     foldl step (handleSubmit_start st) evs = handleSubmit_start st"
proof (induction evs)
  case Nil
  show ?case by simp
next
  case (Cons e evs)
  from Cons.prems obtain d' where "e = Submit d'"
    by auto
  moreover from Cons.prems have "\<forall>e \<in> set evs. \<exists>d'. e = Submit d'"
    by simp
  ultimately show ?case
    using Cons.IH by (simp add: handleSubmit_start_idem)
qed

text \<open>C7, as the code has it. Every call of \<open>handleSubmit\<close>, after whatever events, sets
  the loading flag and clears the stored result and the stored error in its synchronous
  prefix, before the request is sent. The state then stays so until the continuation of
  some request runs: further calls change nothing, and the first continuation is
  applied to the cleared state, so nothing of the result or error stored before the
  call is left. When the call is the only request pending, that continuation is its own
  outcome. (When an earlier request is still pending, its continuation can run first:
  see the theorem after the witness.)\<close>

theorem handleSubmit_start_clears:
  "handleSubmit_start st = \<lparr>loading = True, result = Null, error = Null, copied = copied st\<rparr>
   \<and> run (before @ [Submit d]) st =
       \<lparr>loading = True, result = Null, error = Null, copied = copied (run before st)\<rparr>
   \<and> ((\<forall>e \<in> set evs. \<exists>d'. e = Submit d') \<longrightarrow>
        run (Submit d # evs) st =
          \<lparr>loading = True, result = Null, error = Null, copied = copied st\<rparr>)
   \<and> ((\<forall>e \<in> set evs. \<exists>d'. e = Submit d') \<longrightarrow>
        run (Submit d # evs @ [Resolve n oc]) st = handleSubmit d oc st)
   \<and> run [Submit d] st = handleSubmit_start st
   \<and> run [Submit d, Resolve 0 oc] st = handleSubmit d oc st
   \<and> pending [Submit d] = [0]
   \<and> handleSubmit d oc (st\<lparr>result := r, error := e\<rparr>) = handleSubmit d oc st
   \<and> run (Submit d # evs) (st\<lparr>result := r, error := e\<rparr>) = run (Submit d # evs) st"
proof -
  have start: "handleSubmit_start st =
                 \<lparr>loading = True, result = Null, error = Null, copied = copied st\<rparr>"
    by (simp add: handleSubmit_start_def)
  have after: "run (before @ [Submit d]) st =
                 \<lparr>loading = True, result = Null, error = Null, copied = copied (run before st)\<rparr>"
    by (simp add: run_def handleSubmit_start_def)
  have stays: "(\<forall>e \<in> set evs. \<exists>d'. e = Submit d') \<longrightarrow>
                 run (Submit d # evs) st =
                   \<lparr>loading = True, result = Null, error = Null, copied = copied st\<rparr>"
    using submits_keep_cleared [of evs st] start by (simp add: run_def)
  have first: "(\<forall>e \<in> set evs. \<exists>d'. e = Submit d') \<longrightarrow>
                 run (Submit d # evs @ [Resolve n oc]) st = handleSubmit d oc st"
    using submits_keep_cleared [of evs st] by (simp add: run_def handleSubmit_def)
  have alone: "run [Submit d] st = handleSubmit_start st"
    "run [Submit d, Resolve 0 oc] st = handleSubmit d oc st"
    by (simp_all add: run_def handleSubmit_def)
  have pend: "pending [Submit d] = [0]"
    by (simp add: pending_def)
  have indep: "handleSubmit d oc (st\<lparr>result := r, error := e\<rparr>) = handleSubmit d oc st"
    "run (Submit d # evs) (st\<lparr>result := r, error := e\<rparr>) = run (Submit d # evs) st"
    by (simp_all add: handleSubmit_def handleSubmit_start_def run_def)
  from start after stays first alone pend indep show ?thesis
    by (intro conjI)
qed

theorem handleSubmit_start_clears_witness:
  "run [Submit example_input, Submit example_input] stale_state =
     \<lparr>loading = True, result = Null, error = Null, copied = True\<rparr>
   \<and> run [Submit example_input, Submit example_input,
          Resolve 0 (FetchRejected (ErrorObject ''Network down''))] stale_state =
     \<lparr>loading = False, result = Null, error = Val ''Network down'', copied = True\<rparr>"
  using handleSubmit_start_clears
          [where st = stale_state and d = example_input and evs = "[Submit example_input]"
             and n = 0 and oc = "FetchRejected (ErrorObject ''Network down'')"]
  by (simp add: stale_state_def handleSubmit_def handleSubmit_settle_def handleSubmit_start_def
      try_block_def catch_message_def)

text \<open>The claim C7 as it was stated fails when requests overlap: after two calls, the
  continuation of the first request writes its result (or its error) and turns the
  loading flag off while the second request is still pending, so the outcome of the
  older request shows beside the new one.\<close>

theorem handleSubmit_start_overlap:
  "pending [Submit example_input, Submit example_input,
            Resolve 0 (JsonParsed \<lparr>json_success = Val True, json_data = Val example_result,
                                   json_error = Undefined\<rparr>)] = [1]
   \<and> run [Submit example_input, Submit example_input,
          Resolve 0 (JsonParsed \<lparr>json_success = Val True, json_data = Val example_result,
                                 json_error = Undefined\<rparr>)] initial_state =
     \<lparr>loading = False, result = Val example_result, error = Null, copied = False\<rparr>
   \<and> pending [Submit example_input, Submit example_input,
              Resolve 0 (FetchRejected (ErrorObject ''Network down''))] = [1]
   \<and> run [Submit example_input, Submit example_input,
          Resolve 0 (FetchRejected (ErrorObject ''Network down''))] initial_state =
     \<lparr>loading = False, result = Null, error = Val ''Network down'', copied = False\<rparr>"
  by (simp add: pending_def run_def initial_state_def try_block_def handleSubmit_settle_def
      handleSubmit_start_def catch_message_def)

section \<open>Properties of the serializer\<close>

text \<open>C4, as the code has it. \<open>formatNumber\<close> writes \<^verbatim>\<open>-\<close> for a null or undefined
  number and the host's \<open>toLocaleString\<close> of a present one. Ten lines hand their field
  to \<open>formatNumber\<close> directly: \<open>barangBandar\<close>, \<open>rataRataBandar\<close>, \<open>harga\<close>,
  \<open>offerTeratas\<close>, \<open>bidTerbawah\<close>, \<open>fraksi\<close>, \<open>totalPapan\<close>, \<open>rataRataBidOfer\<close>, \<open>a\<close>
  and \<open>p\<close>; so a null \<open>barangBandar\<close> gives the line \<^verbatim>\<open>Barang Bandar: - lot\<close>. A present
  \<open>totalBid\<close> or \<open>totalOffer\<close> is divided by 100 and the quotient is written by
  \<open>toLocaleString\<close>. A present target price is written by the plain conversion of a
  number to a string, without grouping.\<close>

theorem formatResultForCopy_numeric_fields:
  "formatNumber h Undefined = ''-''
   \<and> formatNumber h Null = ''-''
   \<and> formatNumber h (Val x) = toLocaleString h x
   \<and> formatResultForCopy_lines h r ! 5 =
       ''Barang Bandar: '' @ formatNumber h (barangBandar (stockbitData r)) @ '' lot''
   \<and> formatResultForCopy_lines h r ! 6 =
       ''Rata-rata Harga: Rp '' @ formatNumber h (rataRataBandar (stockbitData r))
   \<and> formatResultForCopy_lines h r ! 9 =
       ''Harga: Rp '' @ formatNumber h (harga (marketData r))
   \<and> formatResultForCopy_lines h r ! 10 =
       ''Offer Max: Rp '' @ formatNumber h (offerTeratas (marketData r))
   \<and> formatResultForCopy_lines h r ! 11 =
       ''Bid Min: Rp '' @ formatNumber h (bidTerbawah (marketData r))
   \<and> formatResultForCopy_lines h r ! 12 =
       ''Fraksi: '' @ formatNumber h (fraksi (marketData r))
   \<and> formatResultForCopy_lines h r ! 17 =
       ''Total Papan: '' @ formatNumber h (totalPapan (calculated r))
   \<and> formatResultForCopy_lines h r ! 18 =
       ''Rata'' @ sup2 @ '' Bid/Offer: '' @ formatNumber h (rataRataBidOfer (calculated r))
   \<and> formatResultForCopy_lines h r ! 19 =
       ''a (5% dari rata'' @ sup2 @ '' bandar): '' @ formatNumber h (coef_a (calculated r))
   \<and> formatResultForCopy_lines h r ! 20 =
       ''p (Barang/Rata'' @ sup2 @ '' Bid Offer): '' @ formatNumber h (coef_p (calculated r))
   \<and> (barangBandar (stockbitData r) = Null \<longrightarrow>
        formatResultForCopy_lines h r ! 5 = ''Barang Bandar: - lot'')
   \<and> (totalBid (marketData r) = Val b \<longrightarrow>
        formatResultForCopy_lines h r ! 13 =
          ''Total Bid: '' @ toLocaleString h (js_div b (Fin 100)))
   \<and> (totalOffer (marketData r) = Val c \<longrightarrow>
        formatResultForCopy_lines h r ! 14 =
          ''Total Offer: '' @ toLocaleString h (js_div c (Fin 100)))
   \<and> (targetRealistis1 (calculated r) = Val t1 \<longrightarrow>
        formatResultForCopy_lines h r ! 23 =
          ''Target Min: '' @ numberToString t1 @ '' (+'' @ calculateGain r (Val t1) @ ''%)'')
   \<and> (targetMax (calculated r) = Val t2 \<longrightarrow>
        formatResultForCopy_lines h r ! 24 =
          ''Target Max: '' @ numberToString t2 @ '' (+'' @ calculateGain r (Val t2) @ ''%)'')"
  by (simp add: formatResultForCopy_lines_def formatNumber_def optional_toLocaleString_def
      nullish_coalesce_def)

theorem formatResultForCopy_numeric_fields_witness:
  "formatResultForCopy_lines enUS
     (example_result\<lparr>stockbitData := (stockbitData example_result)\<lparr>barangBandar := Null\<rparr>\<rparr>) ! 5 =
     ''Barang Bandar: - lot''
   \<and> formatResultForCopy_lines enUS example_result ! 5 = ''Barang Bandar: 1,234,567 lot''
   \<and> formatResultForCopy_lines enUS example_result ! 13 = ''Total Bid: 15,000''
   \<and> formatResultForCopy_lines enUS example_result ! 14 = ''Total Offer: 25,000''
   \<and> formatResultForCopy_lines enUS example_result ! 23 = ''Target Min: 9500 (+5.56%)''
   \<and> formatResultForCopy_lines enUS example_result ! 24 = ''Target Max: 8500 (+-5.56%)''"
  using formatResultForCopy_numeric_fields
          [of enUS "Fin 9500"
              "example_result\<lparr>stockbitData := (stockbitData example_result)\<lparr>barangBandar := Null\<rparr>\<rparr>"
              "Fin 1500000" "Fin 2500000" "Fin 9500" "Fin 8500"]
        formatResultForCopy_numeric_fields
          [of enUS "Fin 9500" example_result
              "Fin 1500000" "Fin 2500000" "Fin 9500" "Fin 8500"]
  by (simp add: example_eval enUS_def)

text \<open>The claim C4 as it was stated fails: a present target price is not grouped (the
  line reads 9500 where the locale writes 9,500), and a null \<open>totalBid\<close> is written as
  0, not as the placeholder.\<close>

theorem formatResultForCopy_not_all_grouped:
  "formatResultForCopy_lines enUS example_result ! 23 = ''Target Min: 9500 (+5.56%)''
   \<and> formatNumber enUS (targetRealistis1 (calculated example_result)) = ''9,500''
   \<and> formatResultForCopy_lines enUS
       (example_result\<lparr>marketData := (marketData example_result)\<lparr>totalBid := Null\<rparr>\<rparr>) ! 13 =
       ''Total Bid: 0''"
  by (simp add: example_eval enUS_def)

text \<open>C5, as the code has it. Each target line ends with an opening parenthesis, a plus
  sign written whatever the sign of the gain, \<open>toFixed 2\<close> of the gain and a percent
  sign, where the gain is \<open>((target - harga) / harga) * 100\<close> in double arithmetic.
  Whenever that gain is a finite number of magnitude below \<open>10 ^ 21\<close>, its text is a
  minus sign when it is negative, then digits, a point and exactly two digits; so a
  negative gain reads \<^verbatim>\<open>+-X.XX%\<close>. The gain is such a number whenever \<open>harga\<close> is a
  finite number other than zero and the target a finite number whose distance from
  \<open>harga\<close> is below \<open>2 ^ 1023\<close> and at most \<open>10 ^ 18\<close> times the magnitude of \<open>harga\<close>.
  With \<open>harga\<close> 9000 the target 9500 gives 5.56 and the target 8500 gives -5.56.\<close>

theorem calculateGain_two_decimals:
  "formatResultForCopy_lines h r ! 23 =
     ''Target Min: '' @ template (targetRealistis1 (calculated r)) @ '' (+'' @
       toFixed 2 (gain r (targetRealistis1 (calculated r))) @ ''%)''
   \<and> formatResultForCopy_lines h r ! 24 =
     ''Target Max: '' @ template (targetMax (calculated r)) @ '' (+'' @
       toFixed 2 (gain r (targetMax (calculated r))) @ ''%)''
   \<and> gain r t =
       js_mul (js_div (js_sub (ToNumber t) (ToNumber (harga (marketData r))))
                      (ToNumber (harga (marketData r)))) (Fin 100)
   \<and> (finite_value (gain r t) = Some g \<and> \<bar>g\<bar> < 10 ^ 21 \<longrightarrow>
        (\<exists>ds d1 d2. calculateGain r t = (if g < 0 then ''-'' else '''') @ ds @ ''.'' @ [d1, d2]
           \<and> ds \<noteq> [] \<and> set (ds @ [d1, d2]) \<subseteq> set ''0123456789''))
   \<and> (harga (marketData r) = Val (Fin p) \<and> p \<noteq> 0 \<and> \<bar>q - p\<bar> < 2 ^ 1023
        \<and> \<bar>q - p\<bar> \<le> 10 ^ 18 * \<bar>p\<bar> \<longrightarrow>
        (\<exists>g' ds d1 d2. finite_value (gain r (Val (Fin q))) = Some g' \<and> \<bar>g'\<bar> < 10 ^ 21
           \<and> calculateGain r (Val (Fin q)) =
               (if g' < 0 then ''-'' else '''') @ ds @ ''.'' @ [d1, d2]
           \<and> ds \<noteq> [] \<and> set (ds @ [d1, d2]) \<subseteq> set ''0123456789''))
   \<and> (harga (marketData r) = Val (Fin 9000) \<longrightarrow>
        calculateGain r (Val (Fin 9500)) = ''5.56'' \<and> calculateGain r (Val (Fin 8500)) = ''-5.56'')"
proof -
  have lines:
    "formatResultForCopy_lines h r ! 23 =
       ''Target Min: '' @ template (targetRealistis1 (calculated r)) @ '' (+'' @
         toFixed 2 (gain r (targetRealistis1 (calculated r))) @ ''%)''"
    "formatResultForCopy_lines h r ! 24 =
       ''Target Max: '' @ template (targetMax (calculated r)) @ '' (+'' @
         toFixed 2 (gain r (targetMax (calculated r))) @ ''%)''"
    by (simp_all add: formatResultForCopy_lines_def calculateGain_def)
  have formula:
    "gain r t =
       js_mul (js_div (js_sub (ToNumber t) (ToNumber (harga (marketData r))))
                      (ToNumber (harga (marketData r)))) (Fin 100)"
    by (simp add: gain_def)
  have shape:
    "finite_value (gain r t) = Some g \<and> \<bar>g\<bar> < 10 ^ 21 \<longrightarrow>
       (\<exists>ds d1 d2. calculateGain r t = (if g < 0 then ''-'' else '''') @ ds @ ''.'' @ [d1, d2]
          \<and> ds \<noteq> [] \<and> set (ds @ [d1, d2]) \<subseteq> set ''0123456789'')"
    unfolding calculateGain_def using toFixed_2_shape [of "gain r t" g] by blast
  have from_inputs:
    "harga (marketData r) = Val (Fin p) \<and> p \<noteq> 0 \<and> \<bar>q - p\<bar> < 2 ^ 1023
       \<and> \<bar>q - p\<bar> \<le> 10 ^ 18 * \<bar>p\<bar> \<longrightarrow>
       (\<exists>g' ds d1 d2. finite_value (gain r (Val (Fin q))) = Some g' \<and> \<bar>g'\<bar> < 10 ^ 21
          \<and> calculateGain r (Val (Fin q)) =
              (if g' < 0 then ''-'' else '''') @ ds @ ''.'' @ [d1, d2]
          \<and> ds \<noteq> [] \<and> set (ds @ [d1, d2]) \<subseteq> set ''0123456789'')"
  proof
    assume a: "harga (marketData r) = Val (Fin p) \<and> p \<noteq> 0 \<and> \<bar>q - p\<bar> < 2 ^ 1023
                 \<and> \<bar>q - p\<bar> \<le> 10 ^ 18 * \<bar>p\<bar>"
    then obtain g' where fin: "finite_value (gain r (Val (Fin q))) = Some g'"
      and small: "\<bar>g'\<bar> < 10 ^ 21"
      using gain_finite [of r p q] by blast
    from toFixed_2_shape [OF fin small] obtain ds d1 d2 where
      "toFixed 2 (gain r (Val (Fin q))) = (if g' < 0 then ''-'' else '''') @ ds @ ''.'' @ [d1, d2]"
      "ds \<noteq> []" "set (ds @ [d1, d2]) \<subseteq> set ''0123456789''"
      by blast
    with fin small show
      "\<exists>g' ds d1 d2. finite_value (gain r (Val (Fin q))) = Some g' \<and> \<bar>g'\<bar> < 10 ^ 21
          \<and> calculateGain r (Val (Fin q)) =
              (if g' < 0 then ''-'' else '''') @ ds @ ''.'' @ [d1, d2]
          \<and> ds \<noteq> [] \<and> set (ds @ [d1, d2]) \<subseteq> set ''0123456789''"
      unfolding calculateGain_def by blast
  qed
  have examples:
    "harga (marketData r) = Val (Fin 9000) \<longrightarrow>
       calculateGain r (Val (Fin 9500)) = ''5.56'' \<and> calculateGain r (Val (Fin 8500)) = ''-5.56''"
    by (simp add: calculateGain_def gain_def gain_9500 gain_8500_value gain_8500)
  from lines formula shape from_inputs examples show ?thesis
    by (intro conjI)
qed

theorem calculateGain_two_decimals_witness:
  "formatResultForCopy_lines enUS example_result ! 23 = ''Target Min: 9500 (+5.56%)''
   \<and> formatResultForCopy_lines enUS example_result ! 24 = ''Target Max: 8500 (+-5.56%)''
   \<and> (\<exists>ds d1 d2. ''-5.56'' = ''-'' @ ds @ ''.'' @ [d1, d2]
         \<and> ds \<noteq> [] \<and> set (ds @ [d1, d2]) \<subseteq> set ''0123456789'')"
  using calculateGain_two_decimals
          [where h = enUS and r = example_result and t = "Val (Fin 8500)"
             and g = "- (3127499741229511 / 562949953421312)" and p = 9000 and q = 8500]
  by (simp add: example_eval)

text \<open>The claim C5 as it was stated fails where the current price is zero: the gain is
  infinite and its text has no decimal digits.\<close>

theorem calculateGain_zero_price:
  "formatResultForCopy_lines enUS
     (example_result\<lparr>marketData := (marketData example_result)\<lparr>harga := Val (Fin 0)\<rparr>\<rparr>) ! 23 =
   ''Target Min: 9500 (+Infinity%)''"
  by (simp add: example_eval)

section \<open>Properties of the effect on selectedStock\<close>

text \<open>C8, as the code has it. When the ticker supplied is a non-empty string that
  differs from the one of the render before (or there was no render before), the effect
  clears the stored result and error, sets the loading flag and sends one request with
  that ticker and the one default date in both \<open>fromDate\<close> and \<open>toDate\<close>. When it is
  null, undefined, the empty string, or the same as before, nothing happens.\<close>

theorem selectedStock_triggers:
  "(s \<noteq> [] \<and> prev \<noteq> Some (Val s) \<longrightarrow>
      useEffect_selectedStock defaultDate prev (Val s) st =
        (\<lparr>loading = True, result = Null, error = Null, copied = copied st\<rparr>,
         Some \<lparr>url = ''/api/stock'', http_method = ''POST'',
               body = \<lparr>emiten = s, fromDate = defaultDate, toDate = defaultDate\<rparr>\<rparr>))
   \<and> (sel = Null \<or> sel = Undefined \<or> sel = Val [] \<or> prev = Some sel \<longrightarrow>
        useEffect_selectedStock defaultDate prev sel st = (st, None))"
  by (auto simp: useEffect_selectedStock_def selectedStock_effect_def handleSubmit_start_def
      handleSubmit_request_def)

theorem selectedStock_triggers_witness:
  "useEffect_selectedStock ''2024-01-31'' (Some (Val ''BBCA'')) (Val ''TLKM'') stale_state =
     (\<lparr>loading = True, result = Null, error = Null, copied = True\<rparr>,
      Some \<lparr>url = ''/api/stock'', http_method = ''POST'',
            body = \<lparr>emiten = ''TLKM'', fromDate = ''2024-01-31'', toDate = ''2024-01-31''\<rparr>\<rparr>)
   \<and> useEffect_selectedStock ''2024-01-31'' (Some (Val ''BBCA'')) (Val ''BBCA'') stale_state =
     (stale_state, None)
   \<and> useEffect_selectedStock ''2024-01-31'' (Some (Val ''BBCA'')) Null stale_state =
     (stale_state, None)"
  using selectedStock_triggers
          [of "''TLKM''" "Some (Val ''BBCA'')" "''2024-01-31''" stale_state "Val ''BBCA''"]
        selectedStock_triggers
          [of "''TLKM''" "Some (Val ''BBCA'')" "''2024-01-31''" stale_state Null]
  by (simp add: stale_state_def)

text \<open>The claim C8 as it was stated fails at the empty string: it is not null and
  differs from the ticker before, and nothing is triggered.\<close>

theorem selectedStock_empty_string:
  "useEffect_selectedStock ''2024-01-31'' (Some (Val ''BBCA'')) (Val '''') stale_state =
     (stale_state, None)"
  by (simp add: useEffect_selectedStock_def selectedStock_effect_def)

section \<open>Properties of handleCopy\<close>

text \<open>C9. The copy action hands a text to the clipboard only when a result is stored,
  and the text is the serialization of that result. When the write fails, the thrown
  value is logged and nothing else happens: the state is as it was. In every case the
  loading flag, the stored result and the stored error are as they were.\<close>

theorem handleCopy_guard_and_failure:
  "(\<not> truthy_object (result st) \<longrightarrow> handleCopy h co st = (st, []))
   \<and> (ClipboardWrite txt \<in> set (snd (handleCopy h co st)) \<longrightarrow>
        (\<exists>r. result st = Val r \<and> txt = formatResultForCopy h r))
   \<and> (result st = Val r' \<longrightarrow>
        handleCopy h (WriteRejected err) st =
          (st, [ClipboardWrite (formatResultForCopy h r'), ConsoleError ''Failed to copy:'' err]))
   \<and> loading (fst (handleCopy h co st)) = loading st
   \<and> result (fst (handleCopy h co st)) = result st
   \<and> error (fst (handleCopy h co st)) = error st"
  by (cases "result st"; cases co)
     (auto simp: handleCopy_def handleCopy_text_def handleCopy_settle_def)

theorem handleCopy_guard_and_failure_witness:
  "handleCopy enUS (WriteRejected NotAnError) initial_state = (initial_state, [])
   \<and> handleCopy enUS (WriteRejected NotAnError) stale_state =
       (stale_state,
        [ClipboardWrite (formatResultForCopy enUS example_result),
         ConsoleError ''Failed to copy:'' NotAnError])"
  using handleCopy_guard_and_failure
          [of initial_state enUS "WriteRejected NotAnError" "[]" example_result NotAnError]
        handleCopy_guard_and_failure
          [of stale_state enUS "WriteRejected NotAnError" "[]" example_result NotAnError]
  by (simp add: initial_state_def stale_state_def)

section \<open>Overlapping requests\<close>

text \<open>C10, as the code has it. When a second request is submitted while the first is
  pending, no guard discards either outcome: both continuations run, in the order in
  which the requests end, whatever their numbers. A continuation writes the result when
  its request succeeded and the error when it failed, and clears neither. So when both
  requests end the same way, the final state is that of the request that ended last;
  when one succeeds and the other fails, the final state holds the result of the one
  and the error of the other.\<close>

theorem overlapping_submits:
  "run [Submit d1, Submit d2, Resolve i oa, Resolve j ob] st =
     handleSubmit_settle ob (handleSubmit_settle oa (handleSubmit_start st))
   \<and> (isl (try_block oa) = isl (try_block ob) \<longrightarrow>
        run [Submit d1, Submit d2, Resolve i oa, Resolve j ob] st = handleSubmit d ob st)
   \<and> (try_block oa = Inr ra \<and> try_block ob = Inl eb \<longrightarrow>
        run [Submit d1, Submit d2, Resolve i oa, Resolve j ob] st =
          \<lparr>loading = False, result = ra, error = Val (catch_message eb), copied = copied st\<rparr>)
   \<and> (try_block oa = Inl ea \<and> try_block ob = Inr rb \<longrightarrow>
        run [Submit d1, Submit d2, Resolve i oa, Resolve j ob] st =
          \<lparr>loading = False, result = rb, error = Val (catch_message ea), copied = copied st\<rparr>)"
  by (cases "try_block oa"; cases "try_block ob")
     (simp_all add: run_def handleSubmit_def handleSubmit_settle_def handleSubmit_start_def)

theorem overlapping_submits_witness:
  "run [Submit example_input, Submit example_input,
        Resolve 1 (FetchRejected (ErrorObject ''first'')),
        Resolve 0 (FetchRejected (ErrorObject ''second''))] initial_state =
     \<lparr>loading = False, result = Null, error = Val ''second'', copied = False\<rparr>
   \<and> run [Submit example_input, Submit example_input,
          Resolve 0 (FetchRejected (ErrorObject ''first'')),
          Resolve 1 (JsonParsed \<lparr>json_success = Val True, json_data = Val example_result,
                                 json_error = Undefined\<rparr>)] initial_state =
     \<lparr>loading = False, result = Val example_result, error = Val ''first'', copied = False\<rparr>"
  using overlapping_submits
          [of example_input example_input 1 "FetchRejected (ErrorObject ''first'')" 0
              "FetchRejected (ErrorObject ''second'')" initial_state example_input
              Null "ErrorObject ''second''" "ErrorObject ''first''" Null]
        overlapping_submits
          [of example_input example_input 0 "FetchRejected (ErrorObject ''first'')" 1
              "JsonParsed \<lparr>json_success = Val True, json_data = Val example_result,
                           json_error = Undefined\<rparr>" initial_state example_input
              Null "ErrorObject ''second''" "ErrorObject ''first''" "Val example_result"]
  by (simp add: initial_state_def try_block_def handleSubmit_def handleSubmit_settle_def
      handleSubmit_start_def catch_message_def)

text \<open>The claim C10 as it was stated fails when the request that ends first succeeds
  and the one that ends last fails: the final state shows the result of the first
  beside the error of the last, which is not the state the last response alone gives.\<close>

theorem overlapping_submits_mixed:
  "run [Submit example_input, Submit example_input,
        Resolve 1 (JsonParsed \<lparr>json_success = Val True, json_data = Val example_result,
                               json_error = Undefined\<rparr>),
        Resolve 0 (FetchRejected (ErrorObject ''Network down''))] initial_state =
     \<lparr>loading = False, result = Val example_result, error = Val ''Network down'',
      copied = False\<rparr>
   \<and> handleSubmit example_input (FetchRejected (ErrorObject ''Network down'')) initial_state =
     \<lparr>loading = False, result = Null, error = Val ''Network down'', copied = False\<rparr>"
  by (simp add: run_def initial_state_def try_block_def handleSubmit_def handleSubmit_settle_def
      handleSubmit_start_def catch_message_def)

end
